theory Spec2Isabelle
  imports Complex_Main
begin

section \<open>JavaScript numbers\<close>

text \<open>
  The cost screen computes with JavaScript numbers. A number is modelled as \<open>NaN\<close>, one of
  the two infinities, or a finite value \<open>Fin x\<close> with \<open>x\<close> a real: the arithmetic on finite
  values is exact, so the rounding of IEEE doubles to 53 bits, overflow to infinity and the
  sign of zero are not part of the model. The operations below are the ones
  \<open>CostInputScreen.tsx\<close> applies: \<open>+\<close>, \<open>*\<close>, \<open>/\<close>, \<open>||\<close>, \<open>Math.max\<close>, \<open>Math.sqrt\<close>, \<open>Math.ceil\<close>
  and \<open>Math.round\<close>.

  A double product or quotient is the exact one rounded to 53 bits, so the two differ where
  the exact result is not a double and a \<open>Math.round\<close> or \<open>Math.ceil\<close> sits next to a tie:
  \<open>20.15 * 10\<close> is \<open>201.5\<close> as a double and a little less exactly. The properties below
  that give the value of a field for a range of inputs are therefore stated for whole
  numbers of at most a million: squares and prices, which the screens store as whole
  numbers (squares come out of \<open>Math.ceil\<close>, prices out of \<open>Math.round\<close>), and whole labor
  values. On these the double arithmetic of the lines concerned returns the exact values.
  The properties that hold of every monotone rounding (the order of two totals, the
  equality of two fields) are stated for all values.
\<close>

datatype jsnum = NaN | PInf | NInf | Fin real

definition signed_inf :: "real \<Rightarrow> jsnum" where
  "signed_inf a = (if a = 0 then NaN else if 0 < a then PInf else NInf)"

fun js_add :: "jsnum \<Rightarrow> jsnum \<Rightarrow> jsnum" where
  "js_add (Fin a) (Fin b) = Fin (a + b)"
| "js_add NaN y = NaN"
| "js_add x NaN = NaN"
| "js_add PInf NInf = NaN"
| "js_add NInf PInf = NaN"
| "js_add PInf y = PInf"
| "js_add x PInf = PInf"
| "js_add NInf y = NInf"
| "js_add x NInf = NInf"

fun js_mul :: "jsnum \<Rightarrow> jsnum \<Rightarrow> jsnum" where
  "js_mul (Fin a) (Fin b) = Fin (a * b)"
| "js_mul NaN y = NaN"
| "js_mul x NaN = NaN"
| "js_mul PInf (Fin b) = signed_inf b"
| "js_mul (Fin a) PInf = signed_inf a"
| "js_mul NInf (Fin b) = signed_inf (- b)"
| "js_mul (Fin a) NInf = signed_inf (- a)"
| "js_mul PInf PInf = PInf"
| "js_mul NInf NInf = PInf"
| "js_mul PInf NInf = NInf"
| "js_mul NInf PInf = NInf"

text \<open>Division by zero is written out with the divisor read as \<open>+0\<close>.\<close>

fun js_div :: "jsnum \<Rightarrow> jsnum \<Rightarrow> jsnum" where
  "js_div (Fin a) (Fin b) = (if b = 0 then signed_inf a else Fin (a / b))"
| "js_div NaN y = NaN"
| "js_div x NaN = NaN"
| "js_div (Fin a) PInf = Fin 0"
| "js_div (Fin a) NInf = Fin 0"
| "js_div PInf (Fin b) = (if 0 \<le> b then PInf else NInf)"
| "js_div NInf (Fin b) = (if 0 \<le> b then NInf else PInf)"
| "js_div PInf PInf = NaN"
| "js_div PInf NInf = NaN"
| "js_div NInf PInf = NaN"
| "js_div NInf NInf = NaN"

instantiation jsnum :: "{plus, times, inverse}"
begin

definition plus_jsnum :: "jsnum \<Rightarrow> jsnum \<Rightarrow> jsnum" where
  "plus_jsnum = js_add"

definition times_jsnum :: "jsnum \<Rightarrow> jsnum \<Rightarrow> jsnum" where
  "times_jsnum = js_mul"

definition divide_jsnum :: "jsnum \<Rightarrow> jsnum \<Rightarrow> jsnum" where
  "divide_jsnum = js_div"

definition inverse_jsnum :: "jsnum \<Rightarrow> jsnum" where
  "inverse_jsnum x = js_div (Fin 1) x"

instance ..

end

text \<open>
  \<open>truthy\<close> is JavaScript's ToBoolean on a number (\<open>NaN\<close> and \<open>0\<close> are falsy) and
  \<open>js_or x y\<close> is \<open>x || y\<close>.
\<close>

fun truthy :: "jsnum \<Rightarrow> bool" where
  "truthy NaN = False"
| "truthy (Fin a) = (a \<noteq> 0)"
| "truthy PInf = True"
| "truthy NInf = True"

definition js_or :: "jsnum \<Rightarrow> jsnum \<Rightarrow> jsnum" where
  "js_or x y = (if truthy x then x else y)"

fun Math_max :: "jsnum \<Rightarrow> jsnum \<Rightarrow> jsnum" where
  "Math_max (Fin a) (Fin b) = Fin (max a b)"
| "Math_max NaN y = NaN"
| "Math_max x NaN = NaN"
| "Math_max PInf y = PInf"
| "Math_max x PInf = PInf"
| "Math_max NInf y = y"
| "Math_max x NInf = x"

fun Math_sqrt :: "jsnum \<Rightarrow> jsnum" where
  "Math_sqrt (Fin a) = (if a < 0 then NaN else Fin (sqrt a))"
| "Math_sqrt PInf = PInf"
| "Math_sqrt NInf = NaN"
| "Math_sqrt NaN = NaN"

fun Math_ceil :: "jsnum \<Rightarrow> jsnum" where
  "Math_ceil (Fin a) = Fin (of_int \<lceil>a\<rceil>)"
| "Math_ceil x = x"

text \<open>\<open>Math.round\<close> rounds to the nearest integer, a tie going up: \<open>\<lfloor>x + 1/2\<rfloor>\<close>.\<close>

fun Math_round :: "jsnum \<Rightarrow> jsnum" where
  "Math_round (Fin a) = Fin (of_int \<lfloor>a + 1 / 2\<rfloor>)"
| "Math_round x = x"

text \<open>The comparison \<open>x <= y\<close> of JavaScript: false as soon as one side is \<open>NaN\<close>.\<close>

fun js_le :: "jsnum \<Rightarrow> jsnum \<Rightarrow> bool" where
  "js_le (Fin a) (Fin b) = (a \<le> b)"
| "js_le NaN y = False"
| "js_le x NaN = False"
| "js_le NInf y = True"
| "js_le x PInf = True"
| "js_le PInf y = False"
| "js_le x NInf = False"

text \<open>
  Reading a property of an object gives a value that need not be a number: \<open>undefined\<close> for
  a missing property, and a function or an object for the properties every plain object
  inherits from \<open>Object.prototype\<close>. \<open>Obj\<close> stands for such a function or object; it is
  truthy, and \<open>ToNumber\<close> (which \<open>*\<close> applies to its operands) makes it \<open>NaN\<close>.
\<close>

datatype jsval = Undefined | Num jsnum | Obj

fun truthy_val :: "jsval \<Rightarrow> bool" where
  "truthy_val Undefined = False"
| "truthy_val (Num x) = truthy x"
| "truthy_val Obj = True"

definition val_or :: "jsval \<Rightarrow> jsval \<Rightarrow> jsval" where
  "val_or x y = (if truthy_val x then x else y)"

fun ToNumber :: "jsval \<Rightarrow> jsnum" where
  "ToNumber Undefined = NaN"
| "ToNumber (Num x) = x"
| "ToNumber Obj = NaN"

text \<open>The property names of \<open>Object.prototype\<close> (ECMAScript, Annex B included).\<close>

definition Object_prototype_properties :: "string list" where
  "Object_prototype_properties =
     [''constructor'', ''hasOwnProperty'', ''isPrototypeOf'', ''propertyIsEnumerable'',
      ''toLocaleString'', ''toString'', ''valueOf'', ''__proto__'',
      ''__defineGetter__'', ''__defineSetter__'', ''__lookupGetter__'', ''__lookupSetter__'']"

text \<open>
  \<open>obj[k]\<close> for a plain object whose own properties are the numbers of the map \<open>obj\<close>: an own
  property first, then the prototype.
\<close>

definition get_property :: "(string \<Rightarrow> jsnum option) \<Rightarrow> string \<Rightarrow> jsval" where
  "get_property obj k =
     (case obj k of
        Some v \<Rightarrow> Num v
      | None \<Rightarrow> (if k \<in> set Object_prototype_properties then Obj else Undefined))"

section \<open>The state of the cost screen\<close>

text \<open>
  \<open>MATERIAL_TYPES\<close> is the catalog of the screen; of each entry the model keeps the id, the
  name and the base price (the description and the icon are only displayed).
\<close>

record MaterialType =
  material_id :: string
  material_name :: string
  basePrice :: jsnum

definition MATERIAL_TYPES :: "MaterialType list" where
  "MATERIAL_TYPES =
    [\<lparr>material_id = ''three-tab'', material_name = ''Three Tab'', basePrice = Fin 450\<rparr>,
     \<lparr>material_id = ''architectural'', material_name = ''Architectural'', basePrice = Fin 500\<rparr>,
     \<lparr>material_id = ''metal-pbr'', material_name = ''Metal PBR'', basePrice = Fin 800\<rparr>,
     \<lparr>material_id = ''standing-seam'', material_name = ''Standing Seam'', basePrice = Fin 1000\<rparr>]"

text \<open>
  The React state of \<open>CostInputScreen\<close>. \<open>laborRate\<close>, \<open>laborHours\<close> and \<open>additionalCosts\<close>
  are text fields that the code reads only through \<open>parseFloat\<close>: the model keeps, for each
  of them, the number \<open>parseFloat\<close> returns for the text (\<open>NaN\<close> for a text that does not
  begin with a number, such as the empty one). \<open>materialPrices\<close> is the
  \<open>Record<string, number>\<close> of adjusted prices, a plain object: the map holds its own
  properties.
\<close>

record CostInputState =
  projectId :: string
  selectedMaterial :: string
  materialPrices :: "string \<Rightarrow> jsnum option"
  roofSquares :: jsnum
  laborRate :: jsnum
  laborHours :: jsnum
  additionalCosts :: jsnum
  isSubmitting :: bool

text \<open>The initial value of \<open>materialPrices\<close>: every catalog id mapped to its base price.\<close>

definition initialMaterialPrices :: "string \<Rightarrow> jsnum option" where
  "initialMaterialPrices =
     foldl (\<lambda>acc m. acc(material_id m \<mapsto> basePrice m)) Map.empty MATERIAL_TYPES"

text \<open>
  The object \<open>getMicroBreakdown\<close> returns. Its fields \<open>laborRate\<close> and \<open>laborHours\<close> are
  named \<open>b_laborRate\<close> and \<open>b_laborHours\<close> here, the state having fields of the same name.
\<close>

record MicroBreakdown =
  shingleBundles :: jsnum
  shingleCostPerBundle :: jsnum
  shingleTotal :: jsnum
  wasteBundles :: jsnum
  wasteTotal :: jsnum
  underlaymentRolls :: jsnum
  underlaymentCostPerRoll :: jsnum
  underlaymentTotal :: jsnum
  iceShieldRolls :: jsnum
  iceShieldCostPerRoll :: jsnum
  iceShieldTotal :: jsnum
  dripEdgePieces :: jsnum
  dripEdgeCostPerPiece :: jsnum
  dripEdgeTotal :: jsnum
  starterStripPieces :: jsnum
  starterCostPerPiece :: jsnum
  starterTotal :: jsnum
  ridgeCapBundles :: jsnum
  ridgeCapCostPerBundle :: jsnum
  ridgeCapTotal :: jsnum
  nailPounds :: jsnum
  nailCostPerPound :: jsnum
  nailTotal :: jsnum
  ventCount :: jsnum
  ventCostEach :: jsnum
  ventTotal :: jsnum
  flashingPieces :: jsnum
  flashingCostPerPiece :: jsnum
  flashingTotal :: jsnum
  labor :: jsnum
  b_laborRate :: jsnum
  b_laborHours :: jsnum
  additional :: jsnum
  shingles :: jsnum
  waste :: jsnum
  underlayment :: jsnum
  flashing :: jsnum
  nails :: jsnum
  venting :: jsnum
  ridgeCap :: jsnum

section \<open>The estimator\<close>

text \<open>
  \<open>materialPrices[selectedMaterial] || 0\<close>: a missing entry is \<open>undefined\<close>, which is falsy,
  and an id such as \<open>constructor\<close> finds the function of the prototype, which is truthy and
  is returned as it is.
\<close>

definition getSelectedMaterialPrice :: "CostInputState \<Rightarrow> jsval" where
  "getSelectedMaterialPrice s =
     val_or (get_property (materialPrices s) (selectedMaterial s)) (Num (Fin 0))"

definition calculateLaborCost :: "CostInputState \<Rightarrow> jsnum" where
  "calculateLaborCost s =
     (let rate = js_or (laborRate s) (Fin 0);
          hours = js_or (laborHours s) (Fin 0)
      in rate * hours)"

text \<open>
  The two local constants \<open>isArchitectural\<close> and \<open>bundlesPerSquare\<close> of
  \<open>getMicroBreakdown\<close>, as functions of the selected material.
\<close>

definition isArchitectural :: "string \<Rightarrow> bool" where
  "isArchitectural m = (m = ''architectural'' \<or> m = ''standing-seam'')"

definition bundlesPerSquare :: "string \<Rightarrow> real" where
  "bundlesPerSquare m = (if isArchitectural m then 4 else 3)"

definition getMicroBreakdown :: "CostInputState \<Rightarrow> MicroBreakdown" where
  "getMicroBreakdown s =
     (let laborTotal = calculateLaborCost s;
          additional' = js_or (additionalCosts s) (Fin 0);
          pricePerSquare = val_or (getSelectedMaterialPrice s) (Num (Fin 0));
          squares = js_or (roofSquares s) (Fin 1);
          bundlesPerSquare' = bundlesPerSquare (selectedMaterial s);
          shingleBundles' = Math_max (Fin 1) (squares * Fin bundlesPerSquare');
          shingleCostPerBundle' =
            (if bundlesPerSquare' > 0
             then Math_round (ToNumber pricePerSquare * Fin 0.62 / Fin bundlesPerSquare')
             else Fin 0);
          underlaymentRolls' = Math_ceil (squares / Fin 3);
          underlaymentCostPerRoll' = Fin 45;
          iceShieldRolls' = Math_ceil (squares * Fin 0.15);
          iceShieldCostPerRoll' = Fin 85;
          roofPerimeter = Math_sqrt (squares * Fin 100) * Fin 4;
          dripEdgePieces' = Math_ceil (roofPerimeter / Fin 10);
          dripEdgeCostPerPiece' = Fin 8;
          starterStripPieces' = dripEdgePieces';
          starterCostPerPiece' = Fin 12;
          ridgeLength = Math_sqrt (squares * Fin 100) * Fin 0.4;
          ridgeCapBundles' = Math_ceil (ridgeLength / Fin 25);
          ridgeCapCostPerBundle' = Fin 55;
          nailPounds' = squares * Fin 2;
          nailCostPerPound' = Fin 3;
          ventCount' = Math_ceil (squares / Fin 1.5);
          ventCostEach' = Fin 25;
          flashingPieces' = Math_ceil (squares * Fin 0.3);
          flashingCostPerPiece' = Fin 15;
          wasteSquares = Math_ceil (squares * Fin 0.12);
          wasteBundles' = wasteSquares * Fin bundlesPerSquare'
      in \<lparr>shingleBundles = shingleBundles',
          shingleCostPerBundle = Math_round shingleCostPerBundle',
          shingleTotal = Math_round (shingleBundles' * shingleCostPerBundle'),
          wasteBundles = wasteBundles',
          wasteTotal = Math_round (wasteBundles' * shingleCostPerBundle'),
          underlaymentRolls = underlaymentRolls',
          underlaymentCostPerRoll = underlaymentCostPerRoll',
          underlaymentTotal = Math_round (underlaymentRolls' * underlaymentCostPerRoll'),
          iceShieldRolls = iceShieldRolls',
          iceShieldCostPerRoll = iceShieldCostPerRoll',
          iceShieldTotal = Math_round (iceShieldRolls' * iceShieldCostPerRoll'),
          dripEdgePieces = dripEdgePieces',
          dripEdgeCostPerPiece = dripEdgeCostPerPiece',
          dripEdgeTotal = Math_round (dripEdgePieces' * dripEdgeCostPerPiece'),
          starterStripPieces = starterStripPieces',
          starterCostPerPiece = starterCostPerPiece',
          starterTotal = Math_round (starterStripPieces' * starterCostPerPiece'),
          ridgeCapBundles = ridgeCapBundles',
          ridgeCapCostPerBundle = ridgeCapCostPerBundle',
          ridgeCapTotal = Math_round (ridgeCapBundles' * ridgeCapCostPerBundle'),
          nailPounds = nailPounds',
          nailCostPerPound = nailCostPerPound',
          nailTotal = Math_round (nailPounds' * nailCostPerPound'),
          ventCount = ventCount',
          ventCostEach = ventCostEach',
          ventTotal = Math_round (ventCount' * ventCostEach'),
          flashingPieces = flashingPieces',
          flashingCostPerPiece = flashingCostPerPiece',
          flashingTotal = Math_round (flashingPieces' * flashingCostPerPiece'),
          labor = Math_round laborTotal,
          b_laborRate = js_or (laborRate s) (Fin 0),
          b_laborHours = js_or (laborHours s) (Fin 0),
          additional = Math_round additional',
          shingles = Math_round (shingleBundles' * shingleCostPerBundle'),
          waste = Math_round (wasteBundles' * shingleCostPerBundle'),
          underlayment = Math_round (underlaymentRolls' * underlaymentCostPerRoll'),
          flashing = Math_round (flashingPieces' * flashingCostPerPiece'),
          nails = Math_round (nailPounds' * nailCostPerPound'),
          venting = Math_round (ventCount' * ventCostEach'),
          ridgeCap = Math_round (ridgeCapBundles' * ridgeCapCostPerBundle')\<rparr>)"

definition calculateTotal :: "CostInputState \<Rightarrow> jsnum" where
  "calculateTotal s =
     (let b = getMicroBreakdown s;
          materialTotal =
            js_or (shingleTotal b) (Fin 0) + js_or (wasteTotal b) (Fin 0)
            + js_or (underlaymentTotal b) (Fin 0) + js_or (iceShieldTotal b) (Fin 0)
            + js_or (dripEdgeTotal b) (Fin 0) + js_or (starterTotal b) (Fin 0)
            + js_or (ridgeCapTotal b) (Fin 0) + js_or (flashingTotal b) (Fin 0)
            + js_or (ventTotal b) (Fin 0) + js_or (nailTotal b) (Fin 0)
      in materialTotal + js_or (labor b) (Fin 0) + js_or (additional b) (Fin 0))"

text \<open>
  Neither \<open>getMicroBreakdown\<close> nor the functions it calls contain a \<open>throw\<close>, and the \<open>Math\<close>
  functions and \<open>parseFloat\<close> never throw: every call returns its object. The outcome of a
  call, as a value that could also be one of the two errors the specification names, is
  therefore always on the right.
\<close>

datatype EstimatorError = InvalidInputError string | UnknownMaterialError string

definition getMicroBreakdown_outcome :: "CostInputState \<Rightarrow> EstimatorError + MicroBreakdown" where
  "getMicroBreakdown_outcome s = Inr (getMicroBreakdown s)"

section \<open>Rendering the breakdown\<close>

text \<open>
  The summary card of the cost screen shows one row for each line item: a label, a second
  line with the quantity and the unit cost, and the amount \<open>formatCurrency\<close> prints. The
  model keeps the label and the amount of each row, in the order of the JSX.
\<close>

definition ui_line_items :: "MicroBreakdown \<Rightarrow> (string \<times> jsnum) list" where
  "ui_line_items b =
     [(''Shingles/Panels'', shingleTotal b),
      (''Waste Factor (12%)'', wasteTotal b),
      (''Underlayment'', underlaymentTotal b),
      (''Ice & Water Shield'', iceShieldTotal b),
      (''Drip Edge'', dripEdgeTotal b),
      (''Starter Strip'', starterTotal b),
      (''Ridge Cap'', ridgeCapTotal b),
      (''Flashing'', flashingTotal b),
      (''Roof Vents'', ventTotal b),
      (''Nails/Fasteners'', nailTotal b),
      (''Labor'', labor b),
      (''Additional Costs'', additional b)]"

text \<open>
  What \<open>handlePreview\<close> writes into the project and the route \<open>/api/generate-pdf\<close> reads
  back for its table: the breakdown, the labor inputs and the total.
\<close>

record StoredProject =
  microBreakdown :: "MicroBreakdown option"
  p_laborRate :: jsnum
  p_laborHours :: jsnum
  estimateTotal :: jsnum

definition handlePreview :: "CostInputState \<Rightarrow> StoredProject" where
  "handlePreview s =
     \<lparr>microBreakdown = Some (getMicroBreakdown s),
      p_laborRate = js_or (laborRate s) (Fin 0),
      p_laborHours = js_or (laborHours s) (Fin 0),
      estimateTotal = calculateTotal s\<rparr>"

text \<open>
  The line-item rows of the table that \<open>/api/generate-pdf\<close> writes, label and amount. The
  cell of the labor row goes on, after the label, with the hours and the rate in
  parentheses, which are left out as the second lines of the card are. Without a breakdown
  the table has no line item (it shows the notice \<open>No breakdown available\<close>).
\<close>

definition pdf_line_items :: "StoredProject \<Rightarrow> (string \<times> jsnum) list" where
  "pdf_line_items p =
     (case microBreakdown p of
        None \<Rightarrow> []
      | Some breakdown \<Rightarrow>
          [(''Shingles/Panels'', js_or (shingles breakdown) (Fin 0)),
           (''Waste Factor (12%)'', js_or (waste breakdown) (Fin 0)),
           (''Underlayment'', js_or (underlayment breakdown) (Fin 0)),
           (''Flashing'', js_or (flashing breakdown) (Fin 0)),
           (''Nails/Fasteners'', js_or (nails breakdown) (Fin 0)),
           (''Venting'', js_or (venting breakdown) (Fin 0)),
           (''Ridge Cap'', js_or (ridgeCap breakdown) (Fin 0)),
           (''Labor'', js_or (labor breakdown) (Fin 0)),
           (''Additional Costs'', js_or (additional breakdown) (Fin 0))])"

section \<open>Inputs used below\<close>

text \<open>
  The first worked example of the specification: 20 squares of three-tab at its base price
  of 450, labor 50 an hour for 40 hours, additional costs 200.
\<close>

definition example1 :: CostInputState where
  "example1 =
     \<lparr>projectId = ''p1'', selectedMaterial = ''three-tab'',
      materialPrices = initialMaterialPrices, roofSquares = Fin 20,
      laborRate = Fin 50, laborHours = Fin 40, additionalCosts = Fin 200,
      isSubmitting = False\<rparr>"


text \<open>The example with the text \<open>-5\<close> in the hours field.\<close>

definition negativeHoursInput :: CostInputState where
  "negativeHoursInput = example1\<lparr>laborHours := Fin (- 5)\<rparr>"


text \<open>
  The example with architectural shingles at their base price of 500: four bundles a
  square, and a cost of a bundle, \<open>500 * 0.62 / 4 = 77.5\<close>, that is rounded.
\<close>

definition architecturalInput :: CostInputState where
  "architecturalInput = example1\<lparr>selectedMaterial := ''architectural''\<rparr>"

section \<open>Finite values in order\<close>

text \<open>
  \<open>fin_le x y\<close>: both numbers are finite and \<open>x\<close> is at most \<open>y\<close>. The proofs add up line
  items with it.
\<close>

fun fin_le :: "jsnum \<Rightarrow> jsnum \<Rightarrow> bool" where
  "fin_le (Fin a) (Fin b) = (a \<le> b)"
| "fin_le x y = False"

section \<open>Properties\<close>

subsection \<open>Arithmetic on finite values\<close>

lemma Math_round_idem: "Math_round (Math_round x) = Math_round x"
  by (cases x) simp_all

lemma Fin_plus: "Fin a + Fin b = Fin (a + b)"
  by (simp add: plus_jsnum_def)

lemma Fin_times: "Fin a * Fin b = Fin (a * b)"
  by (simp add: times_jsnum_def)

lemma Fin_divide: "b \<noteq> 0 \<Longrightarrow> Fin a / Fin b = Fin (a / b)"
  by (simp add: divide_jsnum_def)

lemma js_or_Fin: "js_or (Fin a) (Fin b) = Fin (if a = 0 then b else a)"
  by (simp add: js_or_def)

lemma js_or_Fin_0: "js_or (Fin a) (Fin 0) = Fin a"
  by (simp add: js_or_def)

lemma js_or_Fin_nonzero: "a \<noteq> 0 \<Longrightarrow> js_or (Fin a) y = Fin a"
  by (simp add: js_or_def)

lemmas Fin_arith = Fin_plus Fin_times Fin_divide js_or_Fin

lemma bundlesPerSquare_pos: "0 < bundlesPerSquare m"
  by (simp add: bundlesPerSquare_def)

lemma val_or_Num_Fin: "val_or (Num (Fin a)) (Num (Fin 0)) = Num (Fin a)"
  by (simp add: val_or_def)

lemma price_resolved:
  "materialPrices s (selectedMaterial s) = Some (Fin P)
   \<Longrightarrow> getSelectedMaterialPrice s = Num (Fin P)"
  by (simp add: getSelectedMaterialPrice_def get_property_def val_or_Num_Fin)

lemma shingle_fields:
  assumes "roofSquares s = Fin S" and "0 < S" and "getSelectedMaterialPrice s = Num (Fin P)"
  shows "shingleBundles (getMicroBreakdown s) = Fin (max 1 (S * bundlesPerSquare (selectedMaterial s)))"
    and "shingleCostPerBundle (getMicroBreakdown s)
         = Fin (of_int (round (P * 0.62 / bundlesPerSquare (selectedMaterial s))))"
    and "shingleTotal (getMicroBreakdown s)
         = Math_round (shingleBundles (getMicroBreakdown s) * shingleCostPerBundle (getMicroBreakdown s))"
  using assms bundlesPerSquare_pos [of "selectedMaterial s"]
  by (simp_all add: getMicroBreakdown_def Let_def Fin_times Fin_divide val_or_Num_Fin
      js_or_Fin_nonzero round_def)

lemma waste_fields:
  assumes "roofSquares s = Fin S" and "0 < S"
  shows "wasteBundles (getMicroBreakdown s)
         = Fin (of_int \<lceil>S * 0.12\<rceil> * bundlesPerSquare (selectedMaterial s))"
    and "wasteTotal (getMicroBreakdown s)
         = Math_round (wasteBundles (getMicroBreakdown s) * shingleCostPerBundle (getMicroBreakdown s))"
  using assms bundlesPerSquare_pos [of "selectedMaterial s"]
  by (simp_all add: getMicroBreakdown_def Let_def Fin_times js_or_Fin_nonzero Math_round_idem)

lemma fin_le_add: "fin_le a b \<Longrightarrow> fin_le c d \<Longrightarrow> fin_le (a + c) (b + d)"
  by (cases a; cases b; cases c; cases d) (simp_all add: Fin_plus)

lemma fin_le_or0: "fin_le a b \<Longrightarrow> fin_le (js_or a (Fin 0)) (js_or b (Fin 0))"
  by (cases a; cases b) (simp_all add: js_or_Fin_0)

lemma fin_le_js_le: "fin_le a b \<Longrightarrow> js_le a b"
  by (cases a; cases b) simp_all

lemma price_roofSquares_update:
  "getSelectedMaterialPrice (s\<lparr>roofSquares := x\<rparr>) = getSelectedMaterialPrice s"
  by (simp add: getSelectedMaterialPrice_def)

lemma labor_roofSquares_update:
  "calculateLaborCost (s\<lparr>roofSquares := x\<rparr>) = calculateLaborCost s"
  by (simp add: calculateLaborCost_def)

lemma item_totals_mono:
  assumes "roofSquares s = Fin S" and "0 < S" and "S \<le> T"
    and "getSelectedMaterialPrice s = Num (Fin P)" and "0 \<le> P"
  shows "fin_le (shingleTotal (getMicroBreakdown s)) (shingleTotal (getMicroBreakdown (s\<lparr>roofSquares := Fin T\<rparr>)))"
    and "fin_le (wasteTotal (getMicroBreakdown s)) (wasteTotal (getMicroBreakdown (s\<lparr>roofSquares := Fin T\<rparr>)))"
    and "fin_le (underlaymentTotal (getMicroBreakdown s)) (underlaymentTotal (getMicroBreakdown (s\<lparr>roofSquares := Fin T\<rparr>)))"
    and "fin_le (iceShieldTotal (getMicroBreakdown s)) (iceShieldTotal (getMicroBreakdown (s\<lparr>roofSquares := Fin T\<rparr>)))"
    and "fin_le (dripEdgeTotal (getMicroBreakdown s)) (dripEdgeTotal (getMicroBreakdown (s\<lparr>roofSquares := Fin T\<rparr>)))"
    and "fin_le (starterTotal (getMicroBreakdown s)) (starterTotal (getMicroBreakdown (s\<lparr>roofSquares := Fin T\<rparr>)))"
    and "fin_le (ridgeCapTotal (getMicroBreakdown s)) (ridgeCapTotal (getMicroBreakdown (s\<lparr>roofSquares := Fin T\<rparr>)))"
    and "fin_le (flashingTotal (getMicroBreakdown s)) (flashingTotal (getMicroBreakdown (s\<lparr>roofSquares := Fin T\<rparr>)))"
    and "fin_le (ventTotal (getMicroBreakdown s)) (ventTotal (getMicroBreakdown (s\<lparr>roofSquares := Fin T\<rparr>)))"
    and "fin_le (nailTotal (getMicroBreakdown s)) (nailTotal (getMicroBreakdown (s\<lparr>roofSquares := Fin T\<rparr>)))"
proof -
  let ?b = "bundlesPerSquare (selectedMaterial s)"
  let ?c = "real_of_int \<lfloor>P * (31 / 50) / ?b + 1 / 2\<rfloor>"
  have b: "0 < ?b" by (rule bundlesPerSquare_pos)
  have "0 \<le> P * (31 / 50) / ?b + 1 / 2" using b \<open>0 \<le> P\<close> by simp
  then have c: "0 \<le> ?c" by simp
  have sq: "sqrt (S * 100) \<le> sqrt (T * 100)" using \<open>S \<le> T\<close> by simp
  note defs = getMicroBreakdown_def Let_def Fin_times Fin_divide js_or_Fin_nonzero
    js_or_Fin_0 val_or_Num_Fin price_roofSquares_update
  have "max 1 (S * ?b) * ?c \<le> max 1 (T * ?b) * ?c"
    using b c \<open>S \<le> T\<close> by (intro mult_right_mono max.mono) simp_all
  then show "fin_le (shingleTotal (getMicroBreakdown s))
      (shingleTotal (getMicroBreakdown (s\<lparr>roofSquares := Fin T\<rparr>)))"
    using assms b by (simp add: defs floor_mono)
  have "\<lceil>S * 0.12\<rceil> \<le> \<lceil>T * 0.12\<rceil>" using \<open>S \<le> T\<close> by (intro ceiling_mono) simp
  then have "real_of_int \<lceil>S * 0.12\<rceil> * ?b * ?c \<le> real_of_int \<lceil>T * 0.12\<rceil> * ?b * ?c"
    using b c by (intro mult_right_mono) simp_all
  then show "fin_le (wasteTotal (getMicroBreakdown s))
      (wasteTotal (getMicroBreakdown (s\<lparr>roofSquares := Fin T\<rparr>)))"
    using assms b by (simp add: defs floor_mono)
  show "fin_le (underlaymentTotal (getMicroBreakdown s))
      (underlaymentTotal (getMicroBreakdown (s\<lparr>roofSquares := Fin T\<rparr>)))"
    using assms by (simp add: defs ceiling_mono)
  show "fin_le (iceShieldTotal (getMicroBreakdown s))
      (iceShieldTotal (getMicroBreakdown (s\<lparr>roofSquares := Fin T\<rparr>)))"
    using assms by (simp add: defs ceiling_mono)
  show "fin_le (dripEdgeTotal (getMicroBreakdown s))
      (dripEdgeTotal (getMicroBreakdown (s\<lparr>roofSquares := Fin T\<rparr>)))"
    using assms sq by (simp add: defs ceiling_mono)
  show "fin_le (starterTotal (getMicroBreakdown s))
      (starterTotal (getMicroBreakdown (s\<lparr>roofSquares := Fin T\<rparr>)))"
    using assms sq by (simp add: defs ceiling_mono)
  show "fin_le (ridgeCapTotal (getMicroBreakdown s))
      (ridgeCapTotal (getMicroBreakdown (s\<lparr>roofSquares := Fin T\<rparr>)))"
    using assms sq by (simp add: defs ceiling_mono)
  show "fin_le (flashingTotal (getMicroBreakdown s))
      (flashingTotal (getMicroBreakdown (s\<lparr>roofSquares := Fin T\<rparr>)))"
    using assms by (simp add: defs ceiling_mono)
  show "fin_le (ventTotal (getMicroBreakdown s))
      (ventTotal (getMicroBreakdown (s\<lparr>roofSquares := Fin T\<rparr>)))"
    using assms by (simp add: defs ceiling_mono)
  show "fin_le (nailTotal (getMicroBreakdown s))
      (nailTotal (getMicroBreakdown (s\<lparr>roofSquares := Fin T\<rparr>)))"
    using assms by (simp add: defs floor_mono)
qed

lemma labor_additional_fixed:
  assumes "laborRate s = Fin r" and "laborHours s = Fin h" and "additionalCosts s = Fin a"
  shows "fin_le (labor (getMicroBreakdown s)) (labor (getMicroBreakdown (s\<lparr>roofSquares := x\<rparr>)))"
    and "fin_le (additional (getMicroBreakdown s))
          (additional (getMicroBreakdown (s\<lparr>roofSquares := x\<rparr>)))"
  using assms
  by (simp_all add: getMicroBreakdown_def Let_def calculateLaborCost_def Fin_times js_or_Fin_0)

subsection \<open>Evaluating the examples\<close>

lemma sqrt_2000_bounds: "85 / 2 < sqrt 2000" "sqrt 2000 \<le> 45"
proof -
  have "(85 / 2)\<^sup>2 < (2000::real)" by (simp add: power2_eq_square)
  then show "85 / 2 < sqrt 2000" by (rule real_less_rsqrt)
  show "sqrt 2000 \<le> 45" by (rule real_le_lsqrt) (simp_all add: power2_eq_square)
qed

lemma ceil_drip_20: "\<lceil>2 * sqrt 2000 / 5\<rceil> = 18"
  using sqrt_2000_bounds by (intro ceiling_unique) simp_all

lemma ceil_ridge_20: "\<lceil>sqrt 2000 * 2 / 125\<rceil> = 1"
  using sqrt_2000_bounds by (intro ceiling_unique) simp_all

lemma initial_prices:
  "initialMaterialPrices ''three-tab'' = Some (Fin 450)"
  "initialMaterialPrices ''architectural'' = Some (Fin 500)"
  "initialMaterialPrices ''metal-pbr'' = Some (Fin 800)"
  "initialMaterialPrices ''standing-seam'' = Some (Fin 1000)"
  "initialMaterialPrices ''asphalt-deluxe'' = None"
  by (simp_all add: initialMaterialPrices_def MATERIAL_TYPES_def)

lemma example1_fields:
  "selectedMaterial example1 = ''three-tab''" "roofSquares example1 = Fin 20"
  "laborRate example1 = Fin 50" "laborHours example1 = Fin 40"
  "additionalCosts example1 = Fin 200" "materialPrices example1 = initialMaterialPrices"
  by (simp_all add: example1_def)

lemmas breakdown_defs = getMicroBreakdown_def getSelectedMaterialPrice_def get_property_def
  val_or_def Object_prototype_properties_def calculateLaborCost_def bundlesPerSquare_def
  isArchitectural_def Let_def

lemma example1_breakdown:
  "getMicroBreakdown example1 =
     \<lparr>shingleBundles = Fin 60, shingleCostPerBundle = Fin 93, shingleTotal = Fin 5580,
      wasteBundles = Fin 9, wasteTotal = Fin 837,
      underlaymentRolls = Fin 7, underlaymentCostPerRoll = Fin 45, underlaymentTotal = Fin 315,
      iceShieldRolls = Fin 3, iceShieldCostPerRoll = Fin 85, iceShieldTotal = Fin 255,
      dripEdgePieces = Fin 18, dripEdgeCostPerPiece = Fin 8, dripEdgeTotal = Fin 144,
      starterStripPieces = Fin 18, starterCostPerPiece = Fin 12, starterTotal = Fin 216,
      ridgeCapBundles = Fin 1, ridgeCapCostPerBundle = Fin 55, ridgeCapTotal = Fin 55,
      nailPounds = Fin 40, nailCostPerPound = Fin 3, nailTotal = Fin 120,
      ventCount = Fin 14, ventCostEach = Fin 25, ventTotal = Fin 350,
      flashingPieces = Fin 6, flashingCostPerPiece = Fin 15, flashingTotal = Fin 90,
      labor = Fin 2000, b_laborRate = Fin 50, b_laborHours = Fin 40, additional = Fin 200,
      shingles = Fin 5580, waste = Fin 837, underlayment = Fin 315, flashing = Fin 90,
      nails = Fin 120, venting = Fin 350, ridgeCap = Fin 55\<rparr>"
  by (simp add: breakdown_defs example1_fields initial_prices Fin_arith ceil_drip_20 ceil_ridge_20)

lemma negativeHours_fields:
  "selectedMaterial negativeHoursInput = ''three-tab''" "roofSquares negativeHoursInput = Fin 20"
  "laborRate negativeHoursInput = Fin 50" "laborHours negativeHoursInput = Fin (- 5)"
  "additionalCosts negativeHoursInput = Fin 200"
  "materialPrices negativeHoursInput = initialMaterialPrices"
  by (simp_all add: negativeHoursInput_def example1_def)



lemma architectural_fields:
  "selectedMaterial architecturalInput = ''architectural''"
  "roofSquares architecturalInput = Fin 20"
  "materialPrices architecturalInput = initialMaterialPrices"
  by (simp_all add: architecturalInput_def example1_def)


lemma sqrt_100: "sqrt 100 = 10"
  using real_sqrt_abs [of 10] by simp

lemma ceil_third: "\<lceil>1 / 3 :: real\<rceil> = 1"
  by (rule ceiling_unique) simp_all

subsection \<open>The claims\<close>

text \<open>
  C1. The first worked example: for 20 squares of three-tab at 450 a square, labor 50 an
  hour for 40 hours and additional costs of 200, \<open>getMicroBreakdown\<close> returns 60 bundles
  at 93 (5580), 9 waste bundles (837), 7 rolls of underlayment (315), 3 rolls of ice shield
  (255), 18 pieces of drip edge (144) and of starter strip (216), 1 bundle of ridge cap
  (55), 6 pieces of flashing (90), 14 vents (350), 40 pounds of nails (120), labor 2000 and
  additional 200, and \<open>calculateTotal\<close> returns 10162.
\<close>

theorem worked_example_1:
  "shingleBundles (getMicroBreakdown example1) = Fin 60
   \<and> shingleCostPerBundle (getMicroBreakdown example1) = Fin 93
   \<and> shingleTotal (getMicroBreakdown example1) = Fin 5580
   \<and> wasteBundles (getMicroBreakdown example1) = Fin 9
   \<and> wasteTotal (getMicroBreakdown example1) = Fin 837
   \<and> underlaymentRolls (getMicroBreakdown example1) = Fin 7
   \<and> underlaymentTotal (getMicroBreakdown example1) = Fin 315
   \<and> iceShieldRolls (getMicroBreakdown example1) = Fin 3
   \<and> iceShieldTotal (getMicroBreakdown example1) = Fin 255
   \<and> dripEdgePieces (getMicroBreakdown example1) = Fin 18
   \<and> dripEdgeTotal (getMicroBreakdown example1) = Fin 144
   \<and> starterStripPieces (getMicroBreakdown example1) = Fin 18
   \<and> starterTotal (getMicroBreakdown example1) = Fin 216
   \<and> ridgeCapBundles (getMicroBreakdown example1) = Fin 1
   \<and> ridgeCapTotal (getMicroBreakdown example1) = Fin 55
   \<and> flashingPieces (getMicroBreakdown example1) = Fin 6
   \<and> flashingTotal (getMicroBreakdown example1) = Fin 90
   \<and> ventCount (getMicroBreakdown example1) = Fin 14
   \<and> ventTotal (getMicroBreakdown example1) = Fin 350
   \<and> nailPounds (getMicroBreakdown example1) = Fin 40
   \<and> nailTotal (getMicroBreakdown example1) = Fin 120
   \<and> labor (getMicroBreakdown example1) = Fin 2000
   \<and> additional (getMicroBreakdown example1) = Fin 200
   \<and> calculateTotal example1 = Fin 10162"
  by (simp add: calculateTotal_def example1_breakdown Fin_arith)



text \<open>
  C3, as the claim states it, fails on \<open>-5\<close> hours: no error is raised, the call returns
  a breakdown with labor \<open>round(50 * -5) = -250\<close>, and the total is 7912.
\<close>

theorem negative_hours_counterexample:
  "getMicroBreakdown_outcome negativeHoursInput = Inr (getMicroBreakdown negativeHoursInput)
   \<and> labor (getMicroBreakdown negativeHoursInput) = Fin (- 250)
   \<and> b_laborHours (getMicroBreakdown negativeHoursInput) = Fin (- 5)
   \<and> calculateTotal negativeHoursInput = Fin 7912"
  by (simp add: getMicroBreakdown_outcome_def calculateTotal_def breakdown_defs
      negativeHours_fields initial_prices Fin_arith ceil_drip_20 ceil_ridge_20)

text \<open>
  C3, amended. The estimator validates nothing and raises no error: for every state of the
  screen \<open>getMicroBreakdown\<close> returns a breakdown. Values of either sign go through the
  arithmetic as they are: for a whole rate \<open>r\<close> and whole hours \<open>h\<close> (a million at most in
  size) \<open>labor\<close> is \<open>r * h\<close>, and for whole additional costs \<open>a\<close> \<open>additional\<close> is \<open>a\<close>.
\<close>

theorem no_input_validation:
  "getMicroBreakdown_outcome s = Inr (getMicroBreakdown s)
   \<and> (laborRate s = Fin (of_int r) \<and> laborHours s = Fin (of_int h)
        \<and> \<bar>r\<bar> \<le> 1000000 \<and> \<bar>h\<bar> \<le> 1000000
       \<longrightarrow> labor (getMicroBreakdown s) = Fin (of_int (r * h)))
   \<and> (additionalCosts s = Fin (of_int a) \<and> \<bar>a\<bar> \<le> 1000000
       \<longrightarrow> additional (getMicroBreakdown s) = Fin (of_int a))"
proof -
  have whole: "\<lfloor>real_of_int z + 1 / 2\<rfloor> = z" for z
    by linarith
  have "real_of_int r * real_of_int h = real_of_int (r * h)" by simp
  then have "labor (getMicroBreakdown s) = Fin (of_int (r * h))"
    if "laborRate s = Fin (of_int r)" and "laborHours s = Fin (of_int h)"
    using that
    by (simp only: getMicroBreakdown_def calculateLaborCost_def Let_def js_or_Fin_0 Fin_times
        Math_round.simps whole MicroBreakdown.select_convs)
  moreover have "additional (getMicroBreakdown s) = Fin (of_int a)"
    if "additionalCosts s = Fin (of_int a)"
    using that
    by (simp only: getMicroBreakdown_def Let_def js_or_Fin_0 Math_round.simps whole
        MicroBreakdown.select_convs)
  ultimately show ?thesis
    by (simp add: getMicroBreakdown_outcome_def)
qed

theorem no_input_validation_witness:
  "laborRate negativeHoursInput = Fin (of_int 50)
   \<and> laborHours negativeHoursInput = Fin (of_int (- 5))
   \<and> \<bar>50 :: int\<bar> \<le> 1000000 \<and> \<bar>- 5 :: int\<bar> \<le> 1000000
   \<and> additionalCosts negativeHoursInput = Fin (of_int 200) \<and> \<bar>200 :: int\<bar> \<le> 1000000
   \<and> getMicroBreakdown_outcome negativeHoursInput = Inr (getMicroBreakdown negativeHoursInput)
   \<and> labor (getMicroBreakdown negativeHoursInput) = Fin (- 250)
   \<and> additional (getMicroBreakdown negativeHoursInput) = Fin 200"
  using no_input_validation [of negativeHoursInput 50 "- 5" 200]
  by (simp add: negativeHours_fields)




text \<open>
  C5. The waste allowance goes through squares. For a whole number \<open>n\<close> of squares from 1 to
  a million and a whole price \<open>p\<close> of at most a million,
  \<open>wasteBundles = ceil(n * 0.12) * bundlesPerSquare\<close> and
  \<open>wasteTotal = round(wasteBundles * shingleCostPerBundle)\<close>, where the cost of a bundle is the
  one of the shingles line, \<open>round(p * 0.62 / bundlesPerSquare)\<close>.
\<close>

theorem waste_through_squares:
  assumes "roofSquares s = Fin (of_nat n)" and "1 \<le> n" and "n \<le> 1000000"
    and "materialPrices s (selectedMaterial s) = Some (Fin (of_nat p))" and "p \<le> 1000000"
  shows "wasteBundles (getMicroBreakdown s)
           = Fin (of_int \<lceil>real n * 0.12\<rceil> * bundlesPerSquare (selectedMaterial s))
    \<and> shingleCostPerBundle (getMicroBreakdown s)
           = Fin (of_int (round (real p * 0.62 / bundlesPerSquare (selectedMaterial s))))
    \<and> wasteTotal (getMicroBreakdown s)
           = Fin (real_of_int (round
               (real_of_int \<lceil>real n * 0.12\<rceil> * bundlesPerSquare (selectedMaterial s)
                * real_of_int (round (real p * 0.62 / bundlesPerSquare (selectedMaterial s))))))"
proof -
  have pos: "0 < real n" using assms(2) by simp
  note price = price_resolved [OF assms(4)]
  note shingle = shingle_fields [OF assms(1) pos price]
  note waste = waste_fields [OF assms(1) pos]
  show ?thesis
    by (simp add: waste shingle(2) Fin_times round_def)
qed

theorem waste_through_squares_witness:
  "roofSquares architecturalInput = Fin (of_nat 20) \<and> (1::nat) \<le> 20 \<and> (20::nat) \<le> 1000000
   \<and> materialPrices architecturalInput (selectedMaterial architecturalInput)
       = Some (Fin (of_nat 500))
   \<and> (500::nat) \<le> 1000000
   \<and> wasteBundles (getMicroBreakdown architecturalInput) = Fin 12
   \<and> shingleCostPerBundle (getMicroBreakdown architecturalInput) = Fin 78
   \<and> wasteTotal (getMicroBreakdown architecturalInput) = Fin 936"
  using waste_through_squares [of architecturalInput 20 500]
  by (simp add: architectural_fields initial_prices bundlesPerSquare_def isArchitectural_def
      round_def)

text \<open>
  C6. Monotonicity: with finite inputs, a positive \<open>roofSquares\<close> and a selected price that is
  not negative, raising \<open>roofSquares\<close> and leaving the material, the prices, the labor fields
  and the additional costs as they are never lowers the total of \<open>calculateTotal\<close>.
\<close>

theorem total_monotone_in_roofSquares:
  assumes "roofSquares s = Fin S" and "0 < S" and "S \<le> T"
    and "getSelectedMaterialPrice s = Num (Fin P)" and "0 \<le> P"
    and "laborRate s = Fin r" and "laborHours s = Fin h" and "additionalCosts s = Fin a"
  shows "js_le (calculateTotal s) (calculateTotal (s\<lparr>roofSquares := Fin T\<rparr>))"
proof -
  note items = item_totals_mono [OF assms(1-5)]
  note rest = labor_additional_fixed [OF assms(6-8), of "Fin T"]
  have "fin_le (calculateTotal s) (calculateTotal (s\<lparr>roofSquares := Fin T\<rparr>))"
    unfolding calculateTotal_def Let_def
    by (intro fin_le_add fin_le_or0 items rest)
  then show ?thesis by (rule fin_le_js_le)
qed

theorem total_monotone_in_roofSquares_witness:
  "roofSquares example1 = Fin 20 \<and> (0::real) < 20 \<and> (20::real) \<le> 21
   \<and> getSelectedMaterialPrice example1 = Num (Fin 450) \<and> (0::real) \<le> 450
   \<and> laborRate example1 = Fin 50 \<and> laborHours example1 = Fin 40
   \<and> additionalCosts example1 = Fin 200
   \<and> js_le (calculateTotal example1) (calculateTotal (example1\<lparr>roofSquares := Fin 21\<rparr>))"
  using total_monotone_in_roofSquares [of example1 20 21 450 50 40 200]
  by (simp add: example1_fields initial_prices getSelectedMaterialPrice_def get_property_def
      val_or_def)

text \<open>
  C8. The table of \<open>/api/generate-pdf\<close> does not have the rows of the summary card. For the
  project that \<open>handlePreview\<close> stores for the first example the card shows twelve line
  items and the table nine: Ice & Water Shield, Drip Edge and Starter Strip are missing,
  Flashing and Nails/Fasteners come before the vents and Ridge Cap, and the vents are
  labelled Venting. The amounts are the stored ones (nothing is recomputed), and the nine
  of them add up to 9547 under a printed total of 10162.
\<close>

theorem pdf_rows_differ_from_card:
  "map fst (ui_line_items (getMicroBreakdown example1))
     = [''Shingles/Panels'', ''Waste Factor (12%)'', ''Underlayment'', ''Ice & Water Shield'',
        ''Drip Edge'', ''Starter Strip'', ''Ridge Cap'', ''Flashing'', ''Roof Vents'',
        ''Nails/Fasteners'', ''Labor'', ''Additional Costs'']
   \<and> map fst (pdf_line_items (handlePreview example1))
     = [''Shingles/Panels'', ''Waste Factor (12%)'', ''Underlayment'', ''Flashing'',
        ''Nails/Fasteners'', ''Venting'', ''Ridge Cap'', ''Labor'', ''Additional Costs'']
   \<and> map snd (pdf_line_items (handlePreview example1))
     = [Fin 5580, Fin 837, Fin 315, Fin 90, Fin 120, Fin 350, Fin 55, Fin 2000, Fin 200]
   \<and> estimateTotal (handlePreview example1) = Fin 10162"
  by (simp add: ui_line_items_def pdf_line_items_def handlePreview_def calculateTotal_def
      example1_breakdown Fin_arith)

text \<open>
  C9. With \<open>roofSquares = 0\<close> the breakdown is the one for \<open>roofSquares = 1\<close>, no error is
  raised, and the material bill is not zero: underlayment 45, ice shield 85, drip edge 32,
  starter strip 48, ridge cap 55, flashing 15, vents 25 and nails 6, whatever the material.
\<close>

theorem zero_squares_priced_as_one:
  "getMicroBreakdown (s\<lparr>roofSquares := Fin 0\<rparr>) = getMicroBreakdown (s\<lparr>roofSquares := Fin 1\<rparr>)
   \<and> getMicroBreakdown_outcome (s\<lparr>roofSquares := Fin 0\<rparr>)
       = Inr (getMicroBreakdown (s\<lparr>roofSquares := Fin 1\<rparr>))
   \<and> underlaymentTotal (getMicroBreakdown (s\<lparr>roofSquares := Fin 0\<rparr>)) = Fin 45
   \<and> iceShieldTotal (getMicroBreakdown (s\<lparr>roofSquares := Fin 0\<rparr>)) = Fin 85
   \<and> dripEdgeTotal (getMicroBreakdown (s\<lparr>roofSquares := Fin 0\<rparr>)) = Fin 32
   \<and> starterTotal (getMicroBreakdown (s\<lparr>roofSquares := Fin 0\<rparr>)) = Fin 48
   \<and> ridgeCapTotal (getMicroBreakdown (s\<lparr>roofSquares := Fin 0\<rparr>)) = Fin 55
   \<and> flashingTotal (getMicroBreakdown (s\<lparr>roofSquares := Fin 0\<rparr>)) = Fin 15
   \<and> ventTotal (getMicroBreakdown (s\<lparr>roofSquares := Fin 0\<rparr>)) = Fin 25
   \<and> nailTotal (getMicroBreakdown (s\<lparr>roofSquares := Fin 0\<rparr>)) = Fin 6"
  by (simp add: getMicroBreakdown_outcome_def getMicroBreakdown_def Let_def
      price_roofSquares_update labor_roofSquares_update Fin_arith sqrt_100 ceil_third)

text \<open>
  C10. Every breakdown that \<open>getMicroBreakdown\<close> returns carries the legacy fields with the
  amounts of the itemized fields: \<open>shingles = shingleTotal\<close>, \<open>waste = wasteTotal\<close>,
  \<open>underlayment = underlaymentTotal\<close>, \<open>flashing = flashingTotal\<close>, \<open>nails = nailTotal\<close>,
  \<open>venting = ventTotal\<close> and \<open>ridgeCap = ridgeCapTotal\<close>.
\<close>

theorem legacy_fields_equal_totals:
  "shingles (getMicroBreakdown s) = shingleTotal (getMicroBreakdown s)
   \<and> waste (getMicroBreakdown s) = wasteTotal (getMicroBreakdown s)
   \<and> underlayment (getMicroBreakdown s) = underlaymentTotal (getMicroBreakdown s)
   \<and> flashing (getMicroBreakdown s) = flashingTotal (getMicroBreakdown s)
   \<and> nails (getMicroBreakdown s) = nailTotal (getMicroBreakdown s)
   \<and> venting (getMicroBreakdown s) = ventTotal (getMicroBreakdown s)
   \<and> ridgeCap (getMicroBreakdown s) = ridgeCapTotal (getMicroBreakdown s)"
  by (simp add: getMicroBreakdown_def Let_def)

end
